theory Spec2Isabelle
  imports Main "HOL-Library.Sublist"
begin

section \<open>Shirt Trends Monitor: a shallow embedding of shirt_trends_monitor.py\<close>

text \<open>
  The script samples the rising search queries related to the keyword "shirt", drops the
  phrases that name a colour, a material or a brand, drops the phrases it has alerted
  before, sends one Telegram message for each remaining phrase and records the phrase in
  a JSON file. The embedding follows the class \<open>TrendMonitor\<close> method by method and keeps
  the names of the source.
\<close>

subsection \<open>Text\<close>

text \<open>
  A Python \<open>str\<close> is a \<^typ>\<open>string\<close>: the bytes of its UTF-8 encoding, one \<^typ>\<open>char\<close>
  for each character of ASCII text. \<open>str.lower\<close> and \<open>str.title\<close> are written out for
  ASCII letters; a byte outside ASCII is left as it is and counts as uncased, so the
  embedding speaks for ASCII phrases. The test \<open>a in b\<close> of Python on two strings is
  \<^const>\<open>sublist\<close>: \<open>a\<close> occurs in \<open>b\<close> as a contiguous run.
\<close>

definition is_upper :: "char \<Rightarrow> bool" where
  "is_upper c = (65 \<le> (of_char c :: nat) \<and> (of_char c :: nat) \<le> 90)"

definition is_lower :: "char \<Rightarrow> bool" where
  "is_lower c = (97 \<le> (of_char c :: nat) \<and> (of_char c :: nat) \<le> 122)"

definition lower_char :: "char \<Rightarrow> char" where
  "lower_char c = (if is_upper c then char_of (of_char c + (32::nat)) else c)"

definition upper_char :: "char \<Rightarrow> char" where
  "upper_char c = (if is_lower c then char_of (of_char c - (32::nat)) else c)"

definition lower :: "string \<Rightarrow> string" where
  "lower s = map lower_char s"

text \<open>
  \<open>str.title\<close> walks the string once: a character that follows a cased character is
  lowercased, every other character is uppercased (digits and punctuation have no case,
  so \<open>3d\<close> becomes \<open>3D\<close>).
\<close>

fun title_from :: "bool \<Rightarrow> string \<Rightarrow> string" where
  "title_from previous_is_cased [] = []"
| "title_from previous_is_cased (c # cs) =
     (if previous_is_cased then lower_char c else upper_char c)
       # title_from (is_upper c \<or> is_lower c) cs"

definition title :: "string \<Rightarrow> string" where
  "title s = title_from False s"

text \<open>\<open>str(n)\<close> for an integer: its decimal digits, with a minus sign below zero.\<close>

definition digit_char :: "nat \<Rightarrow> char" where
  "digit_char d = char_of (48 + d)"

fun str_nat :: "nat \<Rightarrow> string" where
  "str_nat n = (if n < 10 then [digit_char n] else str_nat (n div 10) @ [digit_char (n mod 10)])"

declare str_nat.simps [simp del]

definition str_int :: "int \<Rightarrow> string" where
  "str_int i = (if i < 0 then CHR ''-'' # str_nat (nat (- i)) else str_nat (nat i))"

subsection \<open>Configuration\<close>

text \<open>
  The three exclusion sets. The other constants of the source (the file name
  \<open>seen_trends.json\<close>, the keyword, the time frame and the region of the request) name
  things that belong to the world outside the process, which is modelled below.
\<close>

definition EXCLUDED_COLORS :: "string set" where
  "EXCLUDED_COLORS = {''white'', ''black'', ''red'', ''blue'', ''green'', ''yellow'',
     ''pink'', ''purple'', ''brown'', ''grey'', ''gray'', ''orange''}"

definition EXCLUDED_MATERIALS :: "string set" where
  "EXCLUDED_MATERIALS = {''linen'', ''denim'', ''cotton'', ''silk'', ''wool''}"

definition EXCLUDED_BRANDS :: "string set" where
  "EXCLUDED_BRANDS = {''supreme'', ''bape'', ''hardy'', ''custom'', ''nike'', ''adidas'',
     ''armour'', ''under'', ''emotions'', ''punisher'', ''social'', ''karl'', ''spiderman'',
     ''chanel''}"

subsection \<open>The filter: \<open>is_valid_phrase\<close>\<close>

text \<open>
  The helper \<open>contains_excluded\<close> loops over a set and returns at the first entry that
  occurs in the lowercased phrase: it returns true exactly when some entry occurs. The
  three \<open>logger.debug\<close> lines print nothing at the configured level (INFO) and are left
  out, so the filter is a function of the phrase alone. The base keyword is the literal
  \<open>'shirt'\<close> in this method.
\<close>

definition contains_excluded :: "string \<Rightarrow> string set \<Rightarrow> bool" where
  "contains_excluded lower_phrase excluded_set =
     (\<exists>item \<in> excluded_set. sublist item lower_phrase)"

definition is_valid_phrase :: "string \<Rightarrow> bool" where
  "is_valid_phrase phrase =
     (let lower_phrase = lower phrase in
      if \<not> sublist ''shirt'' lower_phrase then False
      else if contains_excluded lower_phrase EXCLUDED_COLORS then False
      else if contains_excluded lower_phrase EXCLUDED_MATERIALS then False
      else if contains_excluded lower_phrase EXCLUDED_BRANDS then False
      else True)"

subsection \<open>The world outside the process\<close>

text \<open>
  What \<open>json.load\<close> returns for a file that parses: a JSON document. Numbers are the
  integers (fractions and exponents are outside the embedding).
\<close>

datatype json =
    JNull
  | JBool bool
  | JNum int
  | JStr string
  | JArr "json list"
  | JObj "(string \<times> json) list"

text \<open>
  The members of the Python set \<open>seen_phrases\<close>. A set holds hashable values, compared
  with \<open>==\<close>: strings, \<open>None\<close> and numbers, where \<open>True\<close> and \<open>False\<close> are the numbers 1
  and 0 (so the embedding writes a member \<open>True\<close> back to the file as \<open>1\<close>, which loads
  as the same member). Lists and dictionaries are not hashable.
\<close>

datatype pykey = KNone | KNum int | KStr string

fun key_of :: "json \<Rightarrow> pykey option" where
  "key_of JNull = Some KNone"
| "key_of (JBool b) = Some (KNum (if b then 1 else 0))"
| "key_of (JNum n) = Some (KNum n)"
| "key_of (JStr s) = Some (KStr s)"
| "key_of (JArr xs) = None"
| "key_of (JObj kvs) = None"

fun json_of_key :: "pykey \<Rightarrow> json" where
  "json_of_key KNone = JNull"
| "json_of_key (KNum n) = JNum n"
| "json_of_key (KStr s) = JStr s"

text \<open>
  The file \<open>seen_trends.json\<close> as the process finds it: absent; present but not readable
  (\<open>open\<close> or \<open>read\<close> raises \<open>IOError\<close>); readable but not text in the expected encoding
  (\<open>read\<close> raises \<open>UnicodeDecodeError\<close>); text that is not JSON (\<open>json.load\<close> raises
  \<open>JSONDecodeError\<close>); or a JSON document. The file is known by the document it holds,
  not by its characters: that \<open>json.load\<close> reads back the document which \<open>json.dump\<close>
  wrote is a property of the library, taken as given.
\<close>

datatype file_state = Missing | Unreadable | Undecodable | Unparsable | Document json

text \<open>The exceptions that leave a method of the class.\<close>

datatype error = TypeError | UnicodeDecodeError

datatype level = INFO | WARNING | ERROR

type_synonym log_entry = "level \<times> string"

text \<open>A growth value of a candidate: a number, or a string such as \<open>'Breakout'\<close>.\<close>

datatype growth = GInt int | GStr string

record item =
  query :: string
  growth_value :: growth

text \<open>The request that \<open>requests.post\<close> sends, and what comes back.\<close>

record request =
  url :: string
  chat_id :: string
  message :: string
  parse_mode :: string

datatype response = Http nat string | RequestException string

text \<open>
  The world keeps, next to the state that the source reads or writes (the file, the
  requests posted to Telegram, the log), the list of the calls made so far to the filter,
  to \<open>send_telegram_alert\<close> and to \<open>_save_seen_phrases\<close>, in order: whether a method
  is called is a property of that list.
\<close>

datatype call =
    Call_is_valid_phrase string
  | Call_send_telegram_alert string growth
  | Call_save_seen_phrases

record world =
  disk :: file_state
  outbox :: "request list"
  logs :: "log_entry list"
  calls :: "call list"

text \<open>
  What the related-queries request yields: an exception, a reply without the keyword, or
  the table of rising queries (\<open>None\<close>, or its rows, each with the columns \<open>query\<close>
  and \<open>value\<close>).
\<close>

datatype trends_reply = Api_exception string | No_related | Rising "item list option"

text \<open>
  How the write of the file ends: done; \<open>open\<close> raises \<open>IOError\<close> (the file is as it
  was); or \<open>json.dump\<close> raises \<open>IOError\<close> after \<open>open\<close> has truncated the file (a strict
  prefix of a JSON array is left, which is not JSON).
\<close>

datatype write_result = Written | Open_failed string | Dump_failed string

text \<open>
  Everything the process does not decide: the reply of Google Trends, the answer of
  Telegram to the k-th request, the clock at the k-th alert, the fate of the write, and
  the order in which Python lists the members of a set (\<open>list(self.seen_phrases)\<close>).
\<close>

record env =
  related_queries :: trends_reply
  post :: "nat \<Rightarrow> request \<Rightarrow> response"
  now :: "nat \<Rightarrow> string"
  dump :: write_result
  list_of :: "pykey set \<Rightarrow> pykey list"

record monitor =
  bot_token :: string
  channel_id :: string
  seen_phrases :: "pykey set"

definition log :: "level \<Rightarrow> string \<Rightarrow> world \<Rightarrow> world" where
  "log lvl msg w = w\<lparr>logs := logs w @ [(lvl, msg)]\<rparr>"

definition record_call :: "call \<Rightarrow> world \<Rightarrow> world" where
  "record_call c w = w\<lparr>calls := calls w @ [c]\<rparr>"

subsection \<open>The deduplication store: \<open>_load_seen_phrases\<close> and \<open>_save_seen_phrases\<close>\<close>

text \<open>
  \<open>set(data)\<close>: the members of a list when each is hashable, the keys of a dictionary,
  the characters of a string; \<open>TypeError\<close> for \<open>None\<close>, a number or a boolean (not
  iterable) and for a list with a list or a dictionary in it (not hashable).
\<close>

fun hashable_keys :: "json list \<Rightarrow> pykey list option" where
  "hashable_keys [] = Some []"
| "hashable_keys (x # xs) =
     (case key_of x of
        None \<Rightarrow> None
      | Some k \<Rightarrow> (case hashable_keys xs of None \<Rightarrow> None | Some ks \<Rightarrow> Some (k # ks)))"

definition py_set :: "json \<Rightarrow> error + pykey set" where
  "py_set data =
     (case data of
        JArr xs \<Rightarrow> (case hashable_keys xs of None \<Rightarrow> Inl TypeError | Some ks \<Rightarrow> Inr (set ks))
      | JObj kvs \<Rightarrow> Inr (set (map (KStr \<circ> fst) kvs))
      | JStr s \<Rightarrow> Inr (set (map (\<lambda>c. KStr [c]) s))
      | _ \<Rightarrow> Inl TypeError)"

text \<open>
  \<open>_load_seen_phrases\<close>. Only \<open>JSONDecodeError\<close> and \<open>IOError\<close> are caught: they log the
  warning and give the empty set. \<open>UnicodeDecodeError\<close> and the \<open>TypeError\<close> of
  \<open>set(data)\<close> are neither, and leave the method.
\<close>

definition load_seen_phrases :: "world \<Rightarrow> error + (pykey set \<times> world)" where
  "load_seen_phrases w =
     (case disk w of
        Missing \<Rightarrow> Inr ({}, w)
      | Unreadable \<Rightarrow>
          Inr ({}, log WARNING ''Could not read seen_trends.json. Starting fresh.'' w)
      | Undecodable \<Rightarrow> Inl UnicodeDecodeError
      | Unparsable \<Rightarrow>
          Inr ({}, log WARNING ''Could not read seen_trends.json. Starting fresh.'' w)
      | Document data \<Rightarrow>
          (case py_set data of Inl e \<Rightarrow> Inl e | Inr s \<Rightarrow> Inr (s, w)))"

text \<open>
  \<open>_save_seen_phrases\<close>: \<open>json.dump(list(self.seen_phrases), f)\<close> overwrites the file
  with the array of the members; an \<open>IOError\<close> is logged and the method returns.
\<close>

definition save_seen_phrases :: "env \<Rightarrow> monitor \<Rightarrow> world \<Rightarrow> world" where
  "save_seen_phrases e m w0 =
     (let w = record_call Call_save_seen_phrases w0 in
      case dump e of
        Written \<Rightarrow>
          w\<lparr>disk := Document (JArr (map json_of_key (list_of e (seen_phrases m))))\<rparr>
      | Open_failed err \<Rightarrow> log ERROR (''Failed to save seen phrases: '' @ err) w
      | Dump_failed err \<Rightarrow>
          log ERROR (''Failed to save seen phrases: '' @ err) (w\<lparr>disk := Unparsable\<rparr>))"

subsection \<open>The trend source: \<open>fetch_rising_queries\<close>\<close>

definition fetch_rising_queries :: "env \<Rightarrow> world \<Rightarrow> item list \<times> world" where
  "fetch_rising_queries e w =
     (case related_queries e of
        Api_exception err \<Rightarrow> ([], log ERROR (''API Error fetching trends: '' @ err) w)
      | No_related \<Rightarrow> ([], log WARNING ''Empty response from Google Trends API.'' w)
      | Rising None \<Rightarrow> ([], log INFO ''No rising trends found currently.'' w)
      | Rising (Some rows) \<Rightarrow>
          (if rows = [] then ([], log INFO ''No rising trends found currently.'' w)
           else (rows, w)))"

subsection \<open>The notification: \<open>send_telegram_alert\<close>\<close>

text \<open>
  The first line of the message opens with the ten bytes the source file holds before
  \<open><b>NEW TREND DETECTED</b>\<close>.
\<close>

definition ICON :: string where
  "ICON = [CHR 0xC3, CHR 0xB0, CHR 0xC5, CHR 0xB8, CHR 0xE2, CHR 0x80, CHR 0x98,
           CHR 0xE2, CHR 0x80, CHR 0xA2]"

definition py_str :: "growth \<Rightarrow> string" where
  "py_str g = (case g of GInt n \<Rightarrow> str_int n | GStr s \<Rightarrow> s)"

definition growth_str :: "growth \<Rightarrow> string" where
  "growth_str g =
     (if lower (py_str g) = ''breakout'' then ''BREAKOUT'' else ''+'' @ py_str g @ ''%'')"

definition format_message :: "string \<Rightarrow> growth \<Rightarrow> string \<Rightarrow> string" where
  "format_message phrase g timestamp =
     ICON @ '' <b>NEW TREND DETECTED</b>'' @ [CHR 0x0A, CHR 0x0A]
       @ ''Phrase: <b>'' @ title phrase @ ''</b>'' @ [CHR 0x0A]
       @ ''Growth: '' @ growth_str g @ [CHR 0x0A]
       @ ''Status: RISING'' @ [CHR 0x0A]
       @ ''Time: '' @ timestamp"

definition send_telegram_alert :: "env \<Rightarrow> monitor \<Rightarrow> string \<Rightarrow> growth \<Rightarrow> world \<Rightarrow> world" where
  "send_telegram_alert e m phrase g w0 =
     (let k = length (outbox w0);
          w = record_call (Call_send_telegram_alert phrase g) w0;
          timestamp = now e k;
          req = \<lparr>url = ''https://api.telegram.org/bot'' @ bot_token m @ ''/sendMessage'',
                 chat_id = channel_id m,
                 message = format_message phrase g timestamp,
                 parse_mode = ''HTML''\<rparr>;
          w' = w\<lparr>outbox := outbox w @ [req]\<rparr>
      in case post e k req of
           Http status_code body \<Rightarrow>
             (if status_code \<noteq> 200 then log ERROR (''Telegram Send Failed: '' @ body) w'
              else log INFO (''Alert sent for: '' @ phrase) w')
         | RequestException err \<Rightarrow>
             log ERROR (''Connection error sending Telegram alert: '' @ err) w')"

subsection \<open>The orchestrator: \<open>run\<close>\<close>

text \<open>
  The state of the loop over \<open>potential_trends\<close>: the monitor (its set of seen phrases),
  the world and the counter \<open>new_trends_found\<close>. \<open>loop_body\<close> is one pass of the loop,
  \<open>scan_loop\<close> the whole loop.
\<close>

type_synonym loop_state = "monitor \<times> world \<times> nat"

definition loop_body :: "env \<Rightarrow> item \<Rightarrow> loop_state \<Rightarrow> loop_state" where
  "loop_body e it st =
     (case st of (m, w, new_trends_found) \<Rightarrow>
        if KStr (query it) \<in> seen_phrases m then st
        else if is_valid_phrase (query it) then
          (let w1 = record_call (Call_is_valid_phrase (query it)) w;
               w2 = send_telegram_alert e m (query it) (growth_value it) w1
           in (m\<lparr>seen_phrases := insert (KStr (query it)) (seen_phrases m)\<rparr>,
               w2, new_trends_found + 1))
        else (m, record_call (Call_is_valid_phrase (query it)) w, new_trends_found))"

fun scan_loop :: "env \<Rightarrow> item list \<Rightarrow> loop_state \<Rightarrow> loop_state" where
  "scan_loop e [] st = st"
| "scan_loop e (it # its) st = scan_loop e its (loop_body e it st)"

text \<open>The state when the loop of \<open>run\<close> ends, and the counter there.\<close>

definition after_loop :: "env \<Rightarrow> monitor \<Rightarrow> world \<Rightarrow> loop_state" where
  "after_loop e m w =
     (case fetch_rising_queries e (log INFO ''Starting trend scan...'' w) of
        (potential_trends, w1) \<Rightarrow> scan_loop e potential_trends (m, w1, 0))"

definition new_trends_found :: "env \<Rightarrow> monitor \<Rightarrow> world \<Rightarrow> nat" where
  "new_trends_found e m w = snd (snd (after_loop e m w))"

definition run :: "env \<Rightarrow> monitor \<Rightarrow> world \<Rightarrow> monitor \<times> world" where
  "run e m w =
     (case after_loop e m w of
        (m', w', n) \<Rightarrow>
          if n > 0 then
            (m', log INFO (''Scan complete. '' @ str_nat n @ '' new alerts sent.'')
                   (save_seen_phrases e m' w'))
          else (m', log INFO ''Scan complete. No new valid trends found.'' w'))"

text \<open>
  One invocation of the script, once the constructor holds its two credentials and its
  client for Google Trends: it loads the store
  (\<open>self.seen_phrases = self._load_seen_phrases()\<close>), and \<open>run\<close> scans.
\<close>

definition scan :: "env \<Rightarrow> string \<Rightarrow> string \<Rightarrow> world \<Rightarrow> error + (monitor \<times> world)" where
  "scan e token channel w =
     (case load_seen_phrases w of
        Inl err \<Rightarrow> Inl err
      | Inr (s, w') \<Rightarrow>
          Inr (run e \<lparr>bot_token = token, channel_id = channel, seen_phrases = s\<rparr> w'))"

text \<open>The calls made between two worlds, and how many of them dispatch a given phrase.\<close>

definition new_calls :: "world \<Rightarrow> world \<Rightarrow> call list" where
  "new_calls w w' = drop (length (calls w)) (calls w')"

fun is_dispatch_of :: "string \<Rightarrow> call \<Rightarrow> bool" where
  "is_dispatch_of p (Call_send_telegram_alert q g) = (p = q)"
| "is_dispatch_of p (Call_is_valid_phrase q) = False"
| "is_dispatch_of p Call_save_seen_phrases = False"

definition dispatches :: "string \<Rightarrow> call list \<Rightarrow> nat" where
  "dispatches p cs = length (filter (is_dispatch_of p) cs)"

subsection \<open>Derived notions and sample inputs\<close>

text \<open>
  The candidate list that \<open>fetch_rising_queries\<close> returns, and the keys of its phrases
  that pass the filter.
\<close>

definition potential_trends :: "env \<Rightarrow> item list" where
  "potential_trends e = (case related_queries e of Rising (Some rows) \<Rightarrow> rows | _ \<Rightarrow> [])"

definition valid_keys :: "item list \<Rightarrow> pykey set" where
  "valid_keys its = set (map (KStr \<circ> query) (filter (is_valid_phrase \<circ> query) its))"

text \<open>
  A sample scan: three rows, the first and the last with the same phrase; Telegram cannot
  be reached; the write of the file succeeds; no file to begin with.
\<close>

definition example_rows :: "item list" where
  "example_rows =
     [\<lparr>query = ''Oversized Shirt'', growth_value = GStr ''250''\<rparr>,
      \<lparr>query = ''Red Denim Shirt'', growth_value = GStr ''Breakout''\<rparr>,
      \<lparr>query = ''Oversized Shirt'', growth_value = GStr ''250''\<rparr>]"

definition example_env :: env where
  "example_env =
     \<lparr>related_queries = Rising (Some example_rows),
      post = (\<lambda>k req. RequestException ''timed out''),
      now = (\<lambda>k. ''2024-05-01 12:00:00''),
      dump = Written,
      list_of = (\<lambda>s. filter (\<lambda>k. k \<in> s) [KStr ''Oversized Shirt'', KStr ''oversized shirt''])\<rparr>"

definition example_world :: world where
  "example_world = \<lparr>disk = Missing, outbox = [], logs = [], calls = []\<rparr>"

definition example_monitor :: "pykey set \<Rightarrow> monitor" where
  "example_monitor s = \<lparr>bot_token = ''TOKEN'', channel_id = ''@channel'', seen_phrases = s\<rparr>"

section \<open>Properties\<close>

subsection \<open>Evaluations on the sample inputs\<close>

lemma lower_Black_Shirt: "lower ''Black Shirt'' = ''black shirt''"
  by code_simp

lemma lower_Graphic_Tee_Shirt: "lower ''Graphic Tee Shirt'' = ''graphic tee shirt''"
  by code_simp

lemma lower_Nil: "lower [] = []"
  by (simp add: lower_def)

lemma lower_oversized: "lower ''oversized shirt'' = lower ''Oversized Shirt''"
  by code_simp

lemma lower_Breakout: "lower ''Breakout'' = ''breakout''"
  by code_simp

lemma lower_250: "lower ''250'' \<noteq> ''breakout''"
  by code_simp

lemma title_oversized_shirt: "title ''oversized shirt'' = ''Oversized Shirt''"
  by code_simp

lemma str_int_250: "str_int 250 = ''250''"
  by code_simp

lemma valid_Oversized_Shirt: "is_valid_phrase ''Oversized Shirt''"
  by code_simp

lemma invalid_Red_Denim_Shirt: "\<not> is_valid_phrase ''Red Denim Shirt''"
  by code_simp

lemma valid_keys_example_rows: "valid_keys example_rows = {KStr ''Oversized Shirt''}"
  by (simp add: valid_keys_def example_rows_def valid_Oversized_Shirt invalid_Red_Denim_Shirt)

lemma potential_trends_example [simp]: "potential_trends example_env = example_rows"
  by (simp add: potential_trends_def example_env_def)

lemma example_rows_member:
  "\<lparr>query = ''Oversized Shirt'', growth_value = GStr ''250''\<rparr> \<in> set example_rows"
  by (simp add: example_rows_def)

lemma example_load: "load_seen_phrases example_world = Inr ({}, example_world)"
  by (simp add: load_seen_phrases_def example_world_def)

lemma example_run_logs:
  "logs (snd (run example_env (example_monitor {}) example_world)) =
     [(INFO, ''Starting trend scan...''),
      (ERROR, ''Connection error sending Telegram alert: timed out''),
      (INFO, ''Scan complete. 1 new alerts sent.'')]"
  by code_simp

subsection \<open>The filter\<close>

text \<open>
  C1. \<open>is_valid_phrase\<close> accepts a phrase exactly when its lowercase form contains
  \<open>shirt\<close> and contains no entry of the colour, material or brand sets. So a phrase with
  the keyword and no excluded entry is accepted, a phrase without the keyword (the empty
  phrase among them) is rejected whatever else it holds, and a phrase with the keyword
  and an excluded entry is rejected. The entries are lowercase and are looked for in the
  lowercase form, which makes the match case-insensitive.
\<close>

theorem is_valid_phrase_iff:
  "is_valid_phrase p \<longleftrightarrow>
     sublist ''shirt'' (lower p) \<and>
     \<not> (\<exists>x \<in> EXCLUDED_COLORS \<union> EXCLUDED_MATERIALS \<union> EXCLUDED_BRANDS.
           sublist x (lower p))"
  by (auto simp: is_valid_phrase_def contains_excluded_def Let_def)

text \<open>\<open>Black Shirt\<close> is rejected, \<open>Graphic Tee Shirt\<close> is accepted, the empty phrase is rejected.\<close>

theorem is_valid_phrase_examples:
  "\<not> is_valid_phrase ''Black Shirt'' \<and> is_valid_phrase ''Graphic Tee Shirt'' \<and>
   \<not> is_valid_phrase ''''"
  using is_valid_phrase_iff [of "''Black Shirt''"]
    is_valid_phrase_iff [of "''Graphic Tee Shirt''"] is_valid_phrase_iff [of "''''"]
  by (simp add: lower_Black_Shirt lower_Graphic_Tee_Shirt lower_Nil EXCLUDED_COLORS_def
      EXCLUDED_MATERIALS_def EXCLUDED_BRANDS_def sublist_code prefix_code)

subsection \<open>What each step leaves alone\<close>

lemma log_simps [simp]:
  "disk (log l s w) = disk w" "outbox (log l s w) = outbox w" "calls (log l s w) = calls w"
  "logs (log l s w) = logs w @ [(l, s)]"
  by (simp_all add: log_def)

lemma record_call_simps [simp]:
  "disk (record_call c w) = disk w" "outbox (record_call c w) = outbox w"
  "calls (record_call c w) = calls w @ [c]" "logs (record_call c w) = logs w"
  by (simp_all add: record_call_def)

lemma send_disk [simp]: "disk (send_telegram_alert e m p g w) = disk w"
  by (simp add: send_telegram_alert_def Let_def split: response.splits)

lemma send_calls [simp]:
  "calls (send_telegram_alert e m p g w) = calls w @ [Call_send_telegram_alert p g]"
  by (simp add: send_telegram_alert_def Let_def split: response.splits)

lemma send_outbox:
  "outbox (send_telegram_alert e m p g w) =
     outbox w @ [\<lparr>url = ''https://api.telegram.org/bot'' @ bot_token m @ ''/sendMessage'',
                  chat_id = channel_id m,
                  message = format_message p g (now e (length (outbox w))),
                  parse_mode = ''HTML''\<rparr>]"
  by (simp add: send_telegram_alert_def Let_def split: response.splits)

lemma loop_body_cases:
  "loop_body e it (m, w, n) =
    (if KStr (query it) \<in> seen_phrases m then (m, w, n)
     else if is_valid_phrase (query it) then
       (m\<lparr>seen_phrases := insert (KStr (query it)) (seen_phrases m)\<rparr>,
        send_telegram_alert e m (query it) (growth_value it)
          (record_call (Call_is_valid_phrase (query it)) w), Suc n)
     else (m, record_call (Call_is_valid_phrase (query it)) w, n))"
  by (simp add: loop_body_def Let_def)

lemma valid_keys_Nil [simp]: "valid_keys [] = {}"
  by (simp add: valid_keys_def)

lemma valid_keys_Cons [simp]:
  "valid_keys (it # its) =
     (if is_valid_phrase (query it) then insert (KStr (query it)) (valid_keys its)
      else valid_keys its)"
  by (simp add: valid_keys_def)

lemma finite_valid_keys [simp]: "finite (valid_keys its)"
  by (simp add: valid_keys_def)

lemma valid_keys_iff:
  "k \<in> valid_keys its \<longleftrightarrow> (\<exists>it \<in> set its. is_valid_phrase (query it) \<and> k = KStr (query it))"
  by (auto simp: valid_keys_def)

lemma scan_loop_seen:
  "seen_phrases (fst (scan_loop e its (m, w, n))) = seen_phrases m \<union> valid_keys its"
  by (induction its arbitrary: m w n) (auto simp: loop_body_cases)

lemma scan_loop_disk: "disk (fst (snd (scan_loop e its (m, w, n)))) = disk w"
  by (induction its arbitrary: m w n) (auto simp: loop_body_cases)

lemma scan_loop_tokens:
  "bot_token (fst (scan_loop e its (m, w, n))) = bot_token m \<and>
   channel_id (fst (scan_loop e its (m, w, n))) = channel_id m"
  by (induction its arbitrary: m w n) (auto simp: loop_body_cases)

lemma scan_loop_counter:
  "snd (snd (scan_loop e its (m, w, n))) = n + card (valid_keys its - seen_phrases m)"
proof (induction its arbitrary: m w n)
  case Nil
  then show ?case by simp
next
  case (Cons it its)
  let ?k = "KStr (query it)"
  show ?case
  proof (cases "?k \<in> seen_phrases m")
    case True
    then have "valid_keys (it # its) - seen_phrases m = valid_keys its - seen_phrases m"
      by auto
    with True show ?thesis by (simp add: loop_body_cases Cons.IH del: valid_keys_Cons)
  next
    case unseen: False
    show ?thesis
    proof (cases "is_valid_phrase (query it)")
      case True
      have "valid_keys (it # its) - seen_phrases m =
              insert ?k (valid_keys its - insert ?k (seen_phrases m))"
        using True unseen by auto
      then have "card (valid_keys (it # its) - seen_phrases m) =
              Suc (card (valid_keys its - insert ?k (seen_phrases m)))"
        by simp
      with True unseen show ?thesis
        by (simp add: loop_body_cases Cons.IH del: valid_keys_Cons)
    next
      case False
      with unseen show ?thesis by (simp add: loop_body_cases Cons.IH)
    qed
  qed
qed

lemma dispatches_simps [simp]:
  "dispatches p [] = 0"
  "dispatches p (cs @ ds) = dispatches p cs + dispatches p ds"
  "dispatches p (Call_is_valid_phrase q # cs) = dispatches p cs"
  "dispatches p (Call_save_seen_phrases # cs) = dispatches p cs"
  "dispatches p (Call_send_telegram_alert q g # cs) = (if p = q then 1 else 0) + dispatches p cs"
  by (simp_all add: dispatches_def)

lemma scan_loop_calls:
  "\<exists>cs. calls (fst (snd (scan_loop e its (m, w, n)))) = calls w @ cs \<and>
        Call_save_seen_phrases \<notin> set cs \<and>
        (\<forall>p. Call_is_valid_phrase p \<in> set cs \<longrightarrow> KStr p \<notin> seen_phrases m) \<and>
        (\<forall>p. dispatches p cs =
           (if p \<in> query ` set its \<and> is_valid_phrase p \<and> KStr p \<notin> seen_phrases m
            then 1 else 0))"
proof (induction its arbitrary: m w n)
  case Nil
  then show ?case by simp
next
  case (Cons it its)
  let ?q = "query it"
  show ?case
  proof (cases "KStr ?q \<in> seen_phrases m")
    case True
    obtain cs where cs: "calls (fst (snd (scan_loop e its (m, w, n)))) = calls w @ cs"
      "Call_save_seen_phrases \<notin> set cs"
      "\<forall>p. Call_is_valid_phrase p \<in> set cs \<longrightarrow> KStr p \<notin> seen_phrases m"
      "\<forall>p. dispatches p cs =
           (if p \<in> query ` set its \<and> is_valid_phrase p \<and> KStr p \<notin> seen_phrases m
            then 1 else 0)"
      using Cons.IH[of m w n] by blast
    have "\<forall>p. dispatches p cs =
           (if p \<in> query ` set (it # its) \<and> is_valid_phrase p \<and> KStr p \<notin> seen_phrases m
            then 1 else 0)"
      using cs(4) True by auto
    with cs(1-3) True show ?thesis
      by (simp add: loop_body_cases)
  next
    case unseen: False
    show ?thesis
    proof (cases "is_valid_phrase ?q")
      case True
      let ?m1 = "m\<lparr>seen_phrases := insert (KStr ?q) (seen_phrases m)\<rparr>"
      let ?w1 = "send_telegram_alert e m ?q (growth_value it)
                   (record_call (Call_is_valid_phrase ?q) w)"
      obtain cs where cs: "calls (fst (snd (scan_loop e its (?m1, ?w1, Suc n)))) = calls ?w1 @ cs"
        "Call_save_seen_phrases \<notin> set cs"
        "\<forall>p. Call_is_valid_phrase p \<in> set cs \<longrightarrow> KStr p \<notin> seen_phrases ?m1"
        "\<forall>p. dispatches p cs =
           (if p \<in> query ` set its \<and> is_valid_phrase p \<and> KStr p \<notin> seen_phrases ?m1
            then 1 else 0)"
        using Cons.IH[of ?m1 ?w1 "Suc n"] by blast
      let ?cs = "[Call_is_valid_phrase ?q, Call_send_telegram_alert ?q (growth_value it)] @ cs"
      have 1: "calls (fst (snd (scan_loop e (it # its) (m, w, n)))) = calls w @ ?cs"
        using cs(1) True unseen by (simp add: loop_body_cases)
      have 2: "Call_save_seen_phrases \<notin> set ?cs" using cs(2) by simp
      have 3: "\<forall>p. Call_is_valid_phrase p \<in> set ?cs \<longrightarrow> KStr p \<notin> seen_phrases m"
        using cs(3) unseen by auto
      have 4: "\<forall>p. dispatches p ?cs =
           (if p \<in> query ` set (it # its) \<and> is_valid_phrase p \<and> KStr p \<notin> seen_phrases m
            then 1 else 0)"
        using cs(4) True unseen by auto
      from 1 2 3 4 show ?thesis by blast
    next
      case False
      let ?w1 = "record_call (Call_is_valid_phrase ?q) w"
      obtain cs where cs: "calls (fst (snd (scan_loop e its (m, ?w1, n)))) = calls ?w1 @ cs"
        "Call_save_seen_phrases \<notin> set cs"
        "\<forall>p. Call_is_valid_phrase p \<in> set cs \<longrightarrow> KStr p \<notin> seen_phrases m"
        "\<forall>p. dispatches p cs =
           (if p \<in> query ` set its \<and> is_valid_phrase p \<and> KStr p \<notin> seen_phrases m
            then 1 else 0)"
        using Cons.IH[of m ?w1 n] by blast
      let ?cs = "[Call_is_valid_phrase ?q] @ cs"
      have 1: "calls (fst (snd (scan_loop e (it # its) (m, w, n)))) = calls w @ ?cs"
        using cs(1) False unseen by (simp add: loop_body_cases)
      have 2: "Call_save_seen_phrases \<notin> set ?cs" using cs(2) by simp
      have 3: "\<forall>p. Call_is_valid_phrase p \<in> set ?cs \<longrightarrow> KStr p \<notin> seen_phrases m"
        using cs(3) unseen by auto
      have 4: "\<forall>p. dispatches p ?cs =
           (if p \<in> query ` set (it # its) \<and> is_valid_phrase p \<and> KStr p \<notin> seen_phrases m
            then 1 else 0)"
        using cs(4) False unseen by auto
      from 1 2 3 4 show ?thesis by blast
    qed
  qed
qed

lemma fetch_fst [simp]: "fst (fetch_rising_queries e w) = potential_trends e"
  by (simp add: fetch_rising_queries_def potential_trends_def
      split: trends_reply.splits option.splits)

lemma fetch_snd [simp]:
  "disk (snd (fetch_rising_queries e w)) = disk w"
  "calls (snd (fetch_rising_queries e w)) = calls w"
  "outbox (snd (fetch_rising_queries e w)) = outbox w"
  by (simp_all add: fetch_rising_queries_def split: trends_reply.splits option.splits)

lemma after_loop_eq:
  "after_loop e m w =
     scan_loop e (potential_trends e)
       (m, snd (fetch_rising_queries e (log INFO ''Starting trend scan...'' w)), 0)"
  by (simp add: after_loop_def split: prod.splits) (metis fetch_fst fst_conv snd_conv)

lemma after_loop_seen:
  "seen_phrases (fst (after_loop e m w)) = seen_phrases m \<union> valid_keys (potential_trends e)"
  by (simp add: after_loop_eq scan_loop_seen)

lemma after_loop_tokens:
  "bot_token (fst (after_loop e m w)) = bot_token m"
  "channel_id (fst (after_loop e m w)) = channel_id m"
  by (simp_all add: after_loop_eq scan_loop_tokens)

lemma after_loop_disk: "disk (fst (snd (after_loop e m w))) = disk w"
  by (simp add: after_loop_eq scan_loop_disk)

lemma new_trends_found_card:
  "new_trends_found e m w = card (valid_keys (potential_trends e) - seen_phrases m)"
  by (simp add: new_trends_found_def after_loop_eq scan_loop_counter)

lemma after_loop_calls:
  "\<exists>cs. calls (fst (snd (after_loop e m w))) = calls w @ cs \<and>
        Call_save_seen_phrases \<notin> set cs \<and>
        (\<forall>p. Call_is_valid_phrase p \<in> set cs \<longrightarrow> KStr p \<notin> seen_phrases m) \<and>
        (\<forall>p. dispatches p cs =
           (if p \<in> query ` set (potential_trends e) \<and> is_valid_phrase p \<and>
               KStr p \<notin> seen_phrases m
            then 1 else 0))"
  using scan_loop_calls[of e "potential_trends e" m
      "snd (fetch_rising_queries e (log INFO ''Starting trend scan...'' w))" 0]
  by (simp add: after_loop_eq)

lemma save_simps [simp]:
  "calls (save_seen_phrases e m w) = calls w @ [Call_save_seen_phrases]"
  "outbox (save_seen_phrases e m w) = outbox w"
  "disk (save_seen_phrases e m w) =
     (case dump e of
        Written \<Rightarrow> Document (JArr (map json_of_key (list_of e (seen_phrases m))))
      | Open_failed err \<Rightarrow> disk w
      | Dump_failed err \<Rightarrow> Unparsable)"
  by (simp_all add: save_seen_phrases_def Let_def split: write_result.splits)

lemma run_eq:
  "run e m w =
     (fst (after_loop e m w),
      if 0 < new_trends_found e m w then
        log INFO (''Scan complete. '' @ str_nat (new_trends_found e m w) @ '' new alerts sent.'')
          (save_seen_phrases e (fst (after_loop e m w)) (fst (snd (after_loop e m w))))
      else log INFO ''Scan complete. No new valid trends found.'' (fst (snd (after_loop e m w))))"
  by (simp add: run_def new_trends_found_def split: prod.splits)

lemma run_seen:
  "seen_phrases (fst (run e m w)) = seen_phrases m \<union> valid_keys (potential_trends e)"
  by (simp add: run_eq after_loop_seen)

lemma run_disk:
  "disk (snd (run e m w)) =
     (if 0 < new_trends_found e m w then
        (case dump e of
           Written \<Rightarrow> Document (JArr (map json_of_key (list_of e (seen_phrases (fst (run e m w))))))
         | Open_failed err \<Rightarrow> disk w
         | Dump_failed err \<Rightarrow> Unparsable)
      else disk w)"
  by (simp add: run_eq after_loop_disk split: write_result.splits)

lemma run_calls:
  "\<exists>cs. calls (snd (run e m w)) =
          calls w @ cs @ (if 0 < new_trends_found e m w then [Call_save_seen_phrases] else []) \<and>
        Call_save_seen_phrases \<notin> set cs \<and>
        (\<forall>p. Call_is_valid_phrase p \<in> set cs \<longrightarrow> KStr p \<notin> seen_phrases m) \<and>
        (\<forall>p. dispatches p cs =
           (if p \<in> query ` set (potential_trends e) \<and> is_valid_phrase p \<and>
               KStr p \<notin> seen_phrases m
            then 1 else 0))"
  using after_loop_calls[of e m w] by (auto simp: run_eq)

lemma new_calls_append: "calls w' = calls w @ cs \<Longrightarrow> new_calls w w' = cs"
  by (simp add: new_calls_def)

lemma run_dispatches:
  "dispatches p (new_calls w (snd (run e m w))) =
     (if p \<in> query ` set (potential_trends e) \<and> is_valid_phrase p \<and> KStr p \<notin> seen_phrases m
      then 1 else 0)"
proof -
  obtain cs where cs: "calls (snd (run e m w)) =
          calls w @ cs @ (if 0 < new_trends_found e m w then [Call_save_seen_phrases] else [])"
      "\<forall>p. dispatches p cs =
           (if p \<in> query ` set (potential_trends e) \<and> is_valid_phrase p \<and>
               KStr p \<notin> seen_phrases m
            then 1 else 0)"
    using run_calls[of e m w] by blast
  have "new_calls w (snd (run e m w)) =
          cs @ (if 0 < new_trends_found e m w then [Call_save_seen_phrases] else [])"
    using cs(1) by (rule new_calls_append)
  then show ?thesis using cs(2) by simp
qed

subsection \<open>The deduplication store\<close>

lemma hashable_keys_json_of_key [simp]: "hashable_keys (map json_of_key ks) = Some ks"
proof (induction ks)
  case Nil
  then show ?case by simp
next
  case (Cons k ks)
  then show ?case by (cases k) simp_all
qed

lemma load_Document_array:
  "disk w = Document (JArr (map json_of_key ks)) \<Longrightarrow> load_seen_phrases w = Inr (set ks, w)"
  by (simp add: load_seen_phrases_def py_set_def)

lemma load_frame:
  "load_seen_phrases w = Inr (s, w') \<Longrightarrow>
     disk w' = disk w \<and> calls w' = calls w \<and> outbox w' = outbox w"
  by (auto simp: load_seen_phrases_def split: file_state.splits sum.splits)

lemma load_same_disk:
  "disk v = disk w \<Longrightarrow> load_seen_phrases w = Inr (s, w') \<Longrightarrow>
     \<exists>v'. load_seen_phrases v = Inr (s, v')"
  by (auto simp: load_seen_phrases_def split: file_state.splits sum.splits)

text \<open>What \<open>_load_seen_phrases\<close> catches: no file, a file that cannot be read, text that is not JSON.\<close>

lemma load_caught:
  "disk w = Missing \<Longrightarrow> load_seen_phrases w = Inr ({}, w)"
  "disk w = Unreadable \<or> disk w = Unparsable \<Longrightarrow>
     load_seen_phrases w =
       Inr ({}, log WARNING ''Could not read seen_trends.json. Starting fresh.'' w)"
  by (auto simp: load_seen_phrases_def)

lemma load_escapes:
  "disk w = Undecodable \<Longrightarrow> load_seen_phrases w = Inl UnicodeDecodeError"
  "disk w = Document JNull \<or> disk w = Document (JNum n) \<or> disk w = Document (JBool b) \<Longrightarrow>
     load_seen_phrases w = Inl TypeError"
  "disk w = Document (JArr [JArr xs]) \<Longrightarrow> load_seen_phrases w = Inl TypeError"
  by (auto simp: load_seen_phrases_def py_set_def)

text \<open>
  C4. The load is to return the empty set for a missing file and, for every malformed
  content, to log a warning and return the empty set, with no exception leaving it. The
  source does so for a missing file, for a file it cannot read and for text that is not
  JSON (\<open>load_caught\<close>). It does not for a file that holds the JSON document \<open>null\<close>:
  \<open>json.load\<close> returns \<open>None\<close>, \<open>set(None)\<close> raises \<open>TypeError\<close>, the \<open>except\<close> clause
  names \<open>JSONDecodeError\<close> and \<open>IOError\<close> only, and the exception leaves the method with
  no warning logged and no set returned. Nor does it for a file whose bytes are not text
  in the expected encoding, where \<open>read\<close> raises \<open>UnicodeDecodeError\<close>.
\<close>

theorem load_null_raises_TypeError:
  "load_seen_phrases (example_world\<lparr>disk := Document JNull\<rparr>) = Inl TypeError \<and>
   load_seen_phrases (example_world\<lparr>disk := Undecodable\<rparr>) = Inl UnicodeDecodeError"
  by (simp add: load_seen_phrases_def py_set_def)

text \<open>
  C8. Saving a store and loading it again gives the store back: when the write succeeds
  and Python lists the members of the set (each of them, whatever the order and the
  number, none included), the load that follows returns exactly the set that was saved,
  and logs nothing. With no file at all the load returns the empty set.
\<close>

theorem save_load_roundtrip:
  "(dump e = Written \<longrightarrow> set (list_of e (seen_phrases m)) = seen_phrases m \<longrightarrow>
      load_seen_phrases (save_seen_phrases e m w) =
        Inr (seen_phrases m, save_seen_phrases e m w)) \<and>
   (disk w = Missing \<longrightarrow> load_seen_phrases w = Inr ({}, w))"
proof (intro conjI impI)
  assume "dump e = Written" and listed: "set (list_of e (seen_phrases m)) = seen_phrases m"
  then have "disk (save_seen_phrases e m w) =
      Document (JArr (map json_of_key (list_of e (seen_phrases m))))"
    by simp
  from load_Document_array[OF this] listed
  show "load_seen_phrases (save_seen_phrases e m w) =
        Inr (seen_phrases m, save_seen_phrases e m w)"
    by simp
next
  assume "disk w = Missing"
  then show "load_seen_phrases w = Inr ({}, w)"
    by (simp add: load_seen_phrases_def)
qed

text \<open>A store of two phrases, the empty store, and no file.\<close>

theorem save_load_roundtrip_witness:
  "load_seen_phrases
     (save_seen_phrases example_env
        (example_monitor {KStr ''Oversized Shirt'', KStr ''oversized shirt''}) example_world) =
   Inr ({KStr ''Oversized Shirt'', KStr ''oversized shirt''},
        save_seen_phrases example_env
          (example_monitor {KStr ''Oversized Shirt'', KStr ''oversized shirt''}) example_world) \<and>
   load_seen_phrases (save_seen_phrases example_env (example_monitor {}) example_world) =
   Inr ({}, save_seen_phrases example_env (example_monitor {}) example_world) \<and>
   load_seen_phrases example_world = Inr ({}, example_world)"
  using save_load_roundtrip [of example_env
      "example_monitor {KStr ''Oversized Shirt'', KStr ''oversized shirt''}" example_world]
    save_load_roundtrip [of example_env "example_monitor {}" example_world]
  by (simp add: example_env_def example_monitor_def example_world_def)

subsection \<open>The notification\<close>

text \<open>The decimal digits of a number never spell \<open>breakout\<close>.\<close>

lemma of_char_digit: "d < 10 \<Longrightarrow> (of_char (digit_char d) :: nat) = 48 + d"
  by (simp add: digit_char_def)

lemma lower_char_digit: "d < 10 \<Longrightarrow> lower_char (digit_char d) \<noteq> CHR ''b''"
proof
  assume d: "d < 10" and eq: "lower_char (digit_char d) = CHR ''b''"
  have "lower_char (digit_char d) = digit_char d"
    using d by (simp add: lower_char_def is_upper_def of_char_digit)
  with eq have "(of_char (digit_char d) :: nat) = of_char CHR ''b''" by simp
  with d show False by (simp add: of_char_digit)
qed

lemma str_nat_no_b: "CHR ''b'' \<notin> set (lower (str_nat n))"
proof (induction n rule: str_nat.induct)
  case (1 n)
  show ?case
  proof (cases "n < 10")
    case True
    then show ?thesis
      using lower_char_digit[of n] by (subst str_nat.simps) (simp add: lower_def)
  next
    case False
    have "n mod 10 < 10" by simp
    from lower_char_digit[OF this] 1 False show ?thesis
      by (subst str_nat.simps) (auto simp: lower_def)
  qed
qed

lemma lower_minus: "lower_char CHR ''-'' = CHR ''-''"
  by code_simp

lemma str_int_not_breakout: "lower (str_int v) \<noteq> ''breakout''"
proof
  assume "lower (str_int v) = ''breakout''"
  then have "CHR ''b'' \<in> set (lower (str_int v))" by simp
  moreover have "CHR ''b'' \<notin> set (lower (str_int v))"
    using str_nat_no_b[of "nat v"] str_nat_no_b[of "nat (- v)"]
    by (auto simp: str_int_def lower_def lower_minus)
  ultimately show False by blast
qed

text \<open>
  C9. Each call of \<open>send_telegram_alert\<close> posts one request, and its message is one text:
  the header, the phrase in title case, the growth, the status line and the time stamp.
  A number \<open>v\<close> is rendered \<open>+v%\<close>; so is a string that is not the marker, as \<open>250\<close> is
  rendered \<open>+250%\<close>; the marker \<open>breakout\<close>, in any letter case, is rendered as the flag
  \<open>BREAKOUT\<close> with no percentage.
\<close>

theorem alert_message_format:
  "outbox (send_telegram_alert e m phrase g w) =
     outbox w @
       [\<lparr>url = ''https://api.telegram.org/bot'' @ bot_token m @ ''/sendMessage'',
         chat_id = channel_id m,
         message =
           ICON @ '' <b>NEW TREND DETECTED</b>'' @ [CHR 0x0A, CHR 0x0A]
             @ ''Phrase: <b>'' @ title phrase @ ''</b>'' @ [CHR 0x0A]
             @ ''Growth: '' @ growth_str g @ [CHR 0x0A]
             @ ''Status: RISING'' @ [CHR 0x0A]
             @ ''Time: '' @ now e (length (outbox w)),
         parse_mode = ''HTML''\<rparr>] \<and>
   growth_str (GInt v) = ''+'' @ str_int v @ ''%'' \<and>
   growth_str (GStr s) = (if lower s = ''breakout'' then ''BREAKOUT'' else ''+'' @ s @ ''%'')"
  by (simp add: send_outbox format_message_def growth_str_def py_str_def str_int_not_breakout)

text \<open>The alert for \<open>oversized shirt\<close> with growth \<open>250\<close>, and the two renderings of a growth.\<close>

theorem alert_message_format_witness:
  "outbox (send_telegram_alert example_env (example_monitor {}) ''oversized shirt''
      (GStr ''250'') example_world) =
     [\<lparr>url = ''https://api.telegram.org/botTOKEN/sendMessage'',
       chat_id = ''@channel'',
       message =
         ICON @ '' <b>NEW TREND DETECTED</b>'' @ [CHR 0x0A, CHR 0x0A]
           @ ''Phrase: <b>Oversized Shirt</b>'' @ [CHR 0x0A]
           @ ''Growth: +250%'' @ [CHR 0x0A]
           @ ''Status: RISING'' @ [CHR 0x0A]
           @ ''Time: 2024-05-01 12:00:00'',
       parse_mode = ''HTML''\<rparr>] \<and>
   growth_str (GInt 250) = ''+250%'' \<and>
   growth_str (GStr ''Breakout'') = ''BREAKOUT''"
  using alert_message_format [of example_env "example_monitor {}" "''oversized shirt''"
      "GStr ''250''" example_world 250 "''250''"]
    alert_message_format [of example_env "example_monitor {}" "''oversized shirt''"
      "GStr ''250''" example_world 250 "''Breakout''"]
  by (simp add: example_env_def example_monitor_def example_world_def title_oversized_shirt
      str_int_250 lower_Breakout lower_250)

subsection \<open>The orchestrator\<close>

lemma run_pair: "run e m w = (fst (run e m w), snd (run e m w))"
  by simp

lemma run_new_calls:
  "\<exists>cs. new_calls w (snd (run e m w)) =
          cs @ (if 0 < new_trends_found e m w then [Call_save_seen_phrases] else []) \<and>
        Call_save_seen_phrases \<notin> set cs \<and>
        (\<forall>p. Call_is_valid_phrase p \<in> set cs \<longrightarrow> KStr p \<notin> seen_phrases m)"
proof -
  obtain cs where cs: "calls (snd (run e m w)) =
          calls w @ cs @ (if 0 < new_trends_found e m w then [Call_save_seen_phrases] else [])"
      "Call_save_seen_phrases \<notin> set cs"
      "\<forall>p. Call_is_valid_phrase p \<in> set cs \<longrightarrow> KStr p \<notin> seen_phrases m"
    using run_calls[of e m w] by blast
  from new_calls_append[OF cs(1)] cs(2,3) show ?thesis by blast
qed

lemma new_trends_found_pos:
  "0 < new_trends_found e m w \<longleftrightarrow> seen_phrases m \<subset> seen_phrases (fst (run e m w))"
proof -
  have "0 < new_trends_found e m w \<longleftrightarrow> valid_keys (potential_trends e) - seen_phrases m \<noteq> {}"
    by (simp add: new_trends_found_card card_gt_0_iff)
  also have "\<dots> \<longleftrightarrow> seen_phrases m \<subset> seen_phrases m \<union> valid_keys (potential_trends e)"
    by auto
  finally show ?thesis by (simp add: run_seen)
qed

lemma scan_loop_dispatches:
  "dispatches p (new_calls w (fst (snd (scan_loop e its (m, w, n))))) =
     (if p \<in> query ` set its \<and> is_valid_phrase p \<and> KStr p \<notin> seen_phrases m then 1 else 0)"
proof -
  obtain cs where cs: "calls (fst (snd (scan_loop e its (m, w, n)))) = calls w @ cs"
      "\<forall>p. dispatches p cs =
           (if p \<in> query ` set its \<and> is_valid_phrase p \<and> KStr p \<notin> seen_phrases m
            then 1 else 0)"
    using scan_loop_calls[of e its m w n] by blast
  from new_calls_append[OF cs(1)] cs(2) show ?thesis by simp
qed

lemma example_run_seen:
  "seen_phrases (fst (run example_env (example_monitor {}) example_world)) =
     {KStr ''Oversized Shirt''}"
  by (simp add: run_seen valid_keys_example_rows example_monitor_def)

lemma example_rerun_seen:
  "seen_phrases (fst (run example_env (example_monitor {KStr ''Oversized Shirt''})
     example_world)) = {KStr ''Oversized Shirt''}"
  by (simp add: run_seen valid_keys_example_rows example_monitor_def)

lemma example_run_found:
  "new_trends_found example_env (example_monitor {}) example_world = 1"
  by (simp add: new_trends_found_card valid_keys_example_rows example_monitor_def)

lemma example_rerun_found:
  "new_trends_found example_env (example_monitor {KStr ''Oversized Shirt''}) example_world = 0"
  by (simp add: new_trends_found_card valid_keys_example_rows example_monitor_def)

text \<open>
  C3, as the source has it. The seen-check is \<open>query in self.seen_phrases\<close> on the phrase
  as the trend source returned it, with no lowercase form taken: one pass of the loop
  skips the candidate (leaves the store, the world and the counter as they were) exactly
  when the store holds the very same string.
\<close>

theorem seen_check_is_exact:
  "loop_body e it (m, w, n) = (m, w, n) \<longleftrightarrow> KStr (query it) \<in> seen_phrases m"
proof
  assume eq: "loop_body e it (m, w, n) = (m, w, n)"
  show "KStr (query it) \<in> seen_phrases m"
  proof (rule ccontr)
    assume "KStr (query it) \<notin> seen_phrases m"
    then have "calls (fst (snd (loop_body e it (m, w, n)))) \<noteq> calls w"
      by (simp add: loop_body_cases)
    with eq show False by simp
  qed
next
  assume "KStr (query it) \<in> seen_phrases m"
  then show "loop_body e it (m, w, n) = (m, w, n)"
    by (simp add: loop_body_cases)
qed

theorem seen_check_is_exact_witness:
  "loop_body example_env \<lparr>query = ''Oversized Shirt'', growth_value = GStr ''250''\<rparr>
     (example_monitor {KStr ''Oversized Shirt''}, example_world, 0) =
   (example_monitor {KStr ''Oversized Shirt''}, example_world, 0)"
  using seen_check_is_exact [of example_env
      "\<lparr>query = ''Oversized Shirt'', growth_value = GStr ''250''\<rparr>"
      "example_monitor {KStr ''Oversized Shirt''}" example_world 0]
  by (simp add: example_monitor_def)

text \<open>
  C3, as it is stated, fails: the store holds \<open>oversized shirt\<close>, which equals the
  candidate \<open>Oversized Shirt\<close> up to letter case, and yet the candidate is not skipped: it
  is dispatched and added to the store.
\<close>

theorem seen_check_ignores_case_counterexample:
  "KStr ''oversized shirt'' \<in> seen_phrases (example_monitor {KStr ''oversized shirt''}) \<and>
   lower ''oversized shirt'' = lower ''Oversized Shirt'' \<and>
   loop_body example_env \<lparr>query = ''Oversized Shirt'', growth_value = GStr ''250''\<rparr>
     (example_monitor {KStr ''oversized shirt''}, example_world, 0) \<noteq>
     (example_monitor {KStr ''oversized shirt''}, example_world, 0) \<and>
   dispatches ''Oversized Shirt''
     (calls (fst (snd (loop_body example_env
        \<lparr>query = ''Oversized Shirt'', growth_value = GStr ''250''\<rparr>
        (example_monitor {KStr ''oversized shirt''}, example_world, 0))))) = 1 \<and>
   KStr ''Oversized Shirt'' \<in> seen_phrases (fst (loop_body example_env
        \<lparr>query = ''Oversized Shirt'', growth_value = GStr ''250''\<rparr>
        (example_monitor {KStr ''oversized shirt''}, example_world, 0)))"
  by (simp add: loop_body_cases example_monitor_def example_world_def lower_oversized
      valid_Oversized_Shirt)


text \<open>
  C6. One pass of the loop over a candidate that is in the store changes nothing: the
  filter is not called and nothing is dispatched. One pass over a candidate that the
  filter rejects leaves the store as it was. So in a whole run no seen phrase is put to
  the filter or dispatched, no rejected phrase enters the store, and every member that
  the store gains is a phrase that was dispatched in that run.
\<close>

theorem store_records_only_alerted:
  "(KStr (query it) \<in> seen_phrases m \<longrightarrow> loop_body e it (m, w, n) = (m, w, n)) \<and>
   (KStr (query it) \<notin> seen_phrases m \<and> \<not> is_valid_phrase (query it) \<longrightarrow>
      seen_phrases (fst (loop_body e it (m, w, n))) = seen_phrases m) \<and>
   (run e m w = (m', w') \<longrightarrow>
      (\<forall>p. KStr p \<in> seen_phrases m \<longrightarrow>
         Call_is_valid_phrase p \<notin> set (new_calls w w') \<and> dispatches p (new_calls w w') = 0) \<and>
      (\<forall>p. \<not> is_valid_phrase p \<and> KStr p \<notin> seen_phrases m \<longrightarrow> KStr p \<notin> seen_phrases m') \<and>
      (\<forall>k \<in> seen_phrases m' - seen_phrases m.
         \<exists>p. k = KStr p \<and> dispatches p (new_calls w w') = 1))"
proof (intro conjI impI)
  assume "KStr (query it) \<in> seen_phrases m"
  then show "loop_body e it (m, w, n) = (m, w, n)" by (simp add: loop_body_cases)
next
  assume "KStr (query it) \<notin> seen_phrases m \<and> \<not> is_valid_phrase (query it)"
  then show "seen_phrases (fst (loop_body e it (m, w, n))) = seen_phrases m"
    by (simp add: loop_body_cases)
next
  assume r: "run e m w = (m', w')"
  then have m': "m' = fst (run e m w)" and w': "w' = snd (run e m w)" by simp_all
  obtain cs where cs: "new_calls w w' =
          cs @ (if 0 < new_trends_found e m w then [Call_save_seen_phrases] else [])"
      "\<forall>p. Call_is_valid_phrase p \<in> set cs \<longrightarrow> KStr p \<notin> seen_phrases m"
    using run_new_calls[of w e m] w' by blast
  have "\<forall>p. KStr p \<in> seen_phrases m \<longrightarrow> Call_is_valid_phrase p \<notin> set (new_calls w w')"
    using cs by auto
  moreover have "\<forall>p. KStr p \<in> seen_phrases m \<longrightarrow> dispatches p (new_calls w w') = 0"
    using w' by (simp add: run_dispatches)
  ultimately show "\<forall>p. KStr p \<in> seen_phrases m \<longrightarrow>
         Call_is_valid_phrase p \<notin> set (new_calls w w') \<and> dispatches p (new_calls w w') = 0"
    by blast
  show "\<forall>p. \<not> is_valid_phrase p \<and> KStr p \<notin> seen_phrases m \<longrightarrow> KStr p \<notin> seen_phrases m'"
    using m' by (auto simp: run_seen valid_keys_iff)
  show "\<forall>k \<in> seen_phrases m' - seen_phrases m.
         \<exists>p. k = KStr p \<and> dispatches p (new_calls w w') = 1"
  proof
    fix k assume "k \<in> seen_phrases m' - seen_phrases m"
    then have "k \<in> valid_keys (potential_trends e)" and k: "k \<notin> seen_phrases m"
      using m' by (auto simp: run_seen)
    then obtain it where it: "it \<in> set (potential_trends e)" "is_valid_phrase (query it)"
        "k = KStr (query it)"
      by (auto simp: valid_keys_iff)
    then have "dispatches (query it) (new_calls w w') = 1"
      using k w' by (auto simp: run_dispatches)
    with it(3) show "\<exists>p. k = KStr p \<and> dispatches p (new_calls w w') = 1" by blast
  qed
qed

text \<open>
  A seen candidate is passed over; the rejected \<open>Red Denim Shirt\<close> stays out of the store;
  the one phrase that the sample run adds was dispatched.
\<close>

theorem store_records_only_alerted_witness:
  "loop_body example_env \<lparr>query = ''Oversized Shirt'', growth_value = GStr ''250''\<rparr>
     (example_monitor {KStr ''Oversized Shirt''}, example_world, 0) =
     (example_monitor {KStr ''Oversized Shirt''}, example_world, 0) \<and>
   seen_phrases (fst (loop_body example_env
     \<lparr>query = ''Red Denim Shirt'', growth_value = GStr ''Breakout''\<rparr>
     (example_monitor {}, example_world, 0))) = {} \<and>
   KStr ''Red Denim Shirt'' \<notin>
     seen_phrases (fst (run example_env (example_monitor {}) example_world)) \<and>
   dispatches ''Oversized Shirt''
     (new_calls example_world (snd (run example_env (example_monitor {}) example_world))) = 1"
proof -
  note seen = store_records_only_alerted [of
      "\<lparr>query = ''Oversized Shirt'', growth_value = GStr ''250''\<rparr>"
      "example_monitor {KStr ''Oversized Shirt''}" example_env example_world 0]
  note rejected = store_records_only_alerted [of
      "\<lparr>query = ''Red Denim Shirt'', growth_value = GStr ''Breakout''\<rparr>"
      "example_monitor {}" example_env example_world 0
      "fst (run example_env (example_monitor {}) example_world)"
      "snd (run example_env (example_monitor {}) example_world)"]
  have s0: "seen_phrases (example_monitor {}) = {}"
    and s1: "KStr ''Oversized Shirt'' \<in> seen_phrases (example_monitor {KStr ''Oversized Shirt''})"
    by (simp_all add: example_monitor_def)
  have 1: "loop_body example_env \<lparr>query = ''Oversized Shirt'', growth_value = GStr ''250''\<rparr>
     (example_monitor {KStr ''Oversized Shirt''}, example_world, 0) =
     (example_monitor {KStr ''Oversized Shirt''}, example_world, 0)"
    using seen s1 by simp
  have 2: "seen_phrases (fst (loop_body example_env
     \<lparr>query = ''Red Denim Shirt'', growth_value = GStr ''Breakout''\<rparr>
     (example_monitor {}, example_world, 0))) = {}"
    using rejected s0 invalid_Red_Denim_Shirt by simp
  have 3: "KStr ''Red Denim Shirt'' \<notin>
     seen_phrases (fst (run example_env (example_monitor {}) example_world))"
    using rejected s0 invalid_Red_Denim_Shirt by simp
  have "\<forall>k \<in> seen_phrases (fst (run example_env (example_monitor {}) example_world)) -
            seen_phrases (example_monitor {}).
          \<exists>p. k = KStr p \<and> dispatches p (new_calls example_world
            (snd (run example_env (example_monitor {}) example_world))) = 1"
    using rejected by simp
  then have 4: "dispatches ''Oversized Shirt''
     (new_calls example_world (snd (run example_env (example_monitor {}) example_world))) = 1"
    by (simp add: example_run_seen s0)
  from 1 2 3 4 show ?thesis by blast
qed

text \<open>
  C10. A phrase that passes the seen-check and the filter is dispatched and added at that
  pass, and in the rest of the loop, however often it comes again, it is not dispatched
  any more. So in a whole run a phrase is dispatched once when it is a valid candidate
  that the store did not hold, at whatever number of positions it stands in the list, and
  not at all otherwise; and the counter is the number of distinct phrases that the store
  gained.
\<close>

theorem duplicate_candidates_alert_once:
  "(KStr (query it) \<notin> seen_phrases m \<and> is_valid_phrase (query it) \<longrightarrow>
      KStr (query it) \<in> seen_phrases (fst (loop_body e it (m, w, n))) \<and>
      dispatches (query it) (new_calls w (fst (snd (loop_body e it (m, w, n))))) = 1 \<and>
      snd (snd (loop_body e it (m, w, n))) = n + 1 \<and>
      dispatches (query it)
        (new_calls (fst (snd (loop_body e it (m, w, n))))
           (fst (snd (scan_loop e its (loop_body e it (m, w, n)))))) = 0) \<and>
   (run e m w = (m', w') \<longrightarrow>
      (\<forall>p. dispatches p (new_calls w w') =
         (if p \<in> query ` set (potential_trends e) \<and> is_valid_phrase p \<and>
             KStr p \<notin> seen_phrases m
          then 1 else 0)) \<and>
      seen_phrases m' = seen_phrases m \<union> valid_keys (potential_trends e) \<and>
      new_trends_found e m w = card (seen_phrases m' - seen_phrases m))"
proof (intro conjI impI)
  assume q: "KStr (query it) \<notin> seen_phrases m \<and> is_valid_phrase (query it)"
  let ?m1 = "m\<lparr>seen_phrases := insert (KStr (query it)) (seen_phrases m)\<rparr>"
  let ?w1 = "send_telegram_alert e m (query it) (growth_value it)
               (record_call (Call_is_valid_phrase (query it)) w)"
  have body: "loop_body e it (m, w, n) = (?m1, ?w1, Suc n)"
    using q by (simp add: loop_body_cases)
  show "KStr (query it) \<in> seen_phrases (fst (loop_body e it (m, w, n)))"
    by (simp add: body)
  show "dispatches (query it) (new_calls w (fst (snd (loop_body e it (m, w, n))))) = 1"
    by (simp add: body new_calls_def)
  show "snd (snd (loop_body e it (m, w, n))) = n + 1"
    by (simp add: body)
  show "dispatches (query it)
        (new_calls (fst (snd (loop_body e it (m, w, n))))
           (fst (snd (scan_loop e its (loop_body e it (m, w, n)))))) = 0"
    using scan_loop_dispatches[of "query it" ?w1 e its ?m1 "Suc n"] by (simp add: body)
next
  assume r: "run e m w = (m', w')"
  then have m': "m' = fst (run e m w)" and w': "w' = snd (run e m w)" by simp_all
  have diff: "seen_phrases m' - seen_phrases m = valid_keys (potential_trends e) - seen_phrases m"
    using m' by (auto simp: run_seen)
  show "\<forall>p. dispatches p (new_calls w w') =
         (if p \<in> query ` set (potential_trends e) \<and> is_valid_phrase p \<and>
             KStr p \<notin> seen_phrases m
          then 1 else 0)"
    using w' by (simp add: run_dispatches)
  show "seen_phrases m' = seen_phrases m \<union> valid_keys (potential_trends e)"
    using m' by (simp add: run_seen)
  show "new_trends_found e m w = card (seen_phrases m' - seen_phrases m)"
    using diff by (simp add: new_trends_found_card)
qed

text \<open>The sample list holds \<open>Oversized Shirt\<close> twice: one dispatch, and the counter is 1.\<close>

theorem duplicate_candidates_alert_once_witness:
  "length (filter (\<lambda>it. query it = ''Oversized Shirt'') (potential_trends example_env)) = 2 \<and>
   dispatches ''Oversized Shirt''
     (new_calls
        (fst (snd (loop_body example_env
           \<lparr>query = ''Oversized Shirt'', growth_value = GStr ''250''\<rparr>
           (example_monitor {}, example_world, 0))))
        (fst (snd (scan_loop example_env (tl example_rows)
           (loop_body example_env \<lparr>query = ''Oversized Shirt'', growth_value = GStr ''250''\<rparr>
              (example_monitor {}, example_world, 0)))))) = 0 \<and>
   dispatches ''Oversized Shirt''
     (new_calls example_world (snd (run example_env (example_monitor {}) example_world))) = 1 \<and>
   new_trends_found example_env (example_monitor {}) example_world = 1"
proof -
  note once = duplicate_candidates_alert_once [where e = example_env
      and m = "example_monitor {}" and w = example_world
      and m' = "fst (run example_env (example_monitor {}) example_world)"
      and w' = "snd (run example_env (example_monitor {}) example_world)"
      and it = "\<lparr>query = ''Oversized Shirt'', growth_value = GStr ''250''\<rparr>"
      and n = 0 and its = "tl example_rows"]
  have 0: "dispatches ''Oversized Shirt''
     (new_calls
        (fst (snd (loop_body example_env
           \<lparr>query = ''Oversized Shirt'', growth_value = GStr ''250''\<rparr>
           (example_monitor {}, example_world, 0))))
        (fst (snd (scan_loop example_env (tl example_rows)
           (loop_body example_env \<lparr>query = ''Oversized Shirt'', growth_value = GStr ''250''\<rparr>
              (example_monitor {}, example_world, 0)))))) = 0"
    using once valid_Oversized_Shirt by (simp add: example_monitor_def)
  have 1: "length (filter (\<lambda>it. query it = ''Oversized Shirt'')
             (potential_trends example_env)) = 2"
    by (simp add: example_rows_def)
  have "''Oversized Shirt'' \<in> query ` set (potential_trends example_env)"
    by (simp add: example_rows_def)
  moreover have "KStr ''Oversized Shirt'' \<notin> seen_phrases (example_monitor {})"
    by (simp add: example_monitor_def)
  ultimately have 2: "dispatches ''Oversized Shirt''
     (new_calls example_world (snd (run example_env (example_monitor {}) example_world))) = 1"
    using once valid_Oversized_Shirt by simp
  from 0 1 2 example_run_found show ?thesis by blast
qed


text \<open>
  C7. At the end of a run \<open>_save_seen_phrases\<close> is called when the counter is above zero,
  once, and not called otherwise; the counter is above zero exactly when the store of
  the monitor has grown in the run; and a run that leaves the store as it was leaves the
  file as it was.
\<close>

theorem save_iff_new_alerts:
  "run e m w = (m', w') \<Longrightarrow>
     (Call_save_seen_phrases \<in> set (new_calls w w') \<longleftrightarrow> 0 < new_trends_found e m w) \<and>
     count_list (new_calls w w') Call_save_seen_phrases =
       (if 0 < new_trends_found e m w then 1 else 0) \<and>
     (0 < new_trends_found e m w \<longleftrightarrow> seen_phrases m \<subset> seen_phrases m') \<and>
     (seen_phrases m' = seen_phrases m \<longrightarrow> disk w' = disk w)"
proof -
  assume r: "run e m w = (m', w')"
  then have m': "m' = fst (run e m w)" and w': "w' = snd (run e m w)" by simp_all
  obtain cs where cs: "new_calls w w' =
          cs @ (if 0 < new_trends_found e m w then [Call_save_seen_phrases] else [])"
      "Call_save_seen_phrases \<notin> set cs"
    using run_new_calls[of w e m] w' by blast
  have 1: "Call_save_seen_phrases \<in> set (new_calls w w') \<longleftrightarrow> 0 < new_trends_found e m w"
    using cs by simp
  have 2: "count_list (new_calls w w') Call_save_seen_phrases =
       (if 0 < new_trends_found e m w then 1 else 0)"
    using cs by (simp add: count_list_0_iff)
  have 3: "0 < new_trends_found e m w \<longleftrightarrow> seen_phrases m \<subset> seen_phrases m'"
    using new_trends_found_pos[of e m w] m' by simp
  have 4: "seen_phrases m' = seen_phrases m \<longrightarrow> disk w' = disk w"
    using 3 run_disk[of e m w] w' by auto
  from 1 2 3 4 show ?thesis by blast
qed

text \<open>
  The sample run from an empty store saves; the same run from a store that holds
  \<open>Oversized Shirt\<close> finds nothing new, does not save and leaves the file missing.
\<close>

theorem save_iff_new_alerts_witness:
  "Call_save_seen_phrases \<in>
     set (new_calls example_world (snd (run example_env (example_monitor {}) example_world))) \<and>
   new_trends_found example_env (example_monitor {}) example_world = 1 \<and>
   Call_save_seen_phrases \<notin>
     set (new_calls example_world
       (snd (run example_env (example_monitor {KStr ''Oversized Shirt''}) example_world))) \<and>
   new_trends_found example_env (example_monitor {KStr ''Oversized Shirt''}) example_world = 0 \<and>
   disk (snd (run example_env (example_monitor {KStr ''Oversized Shirt''}) example_world)) =
     Missing"
proof -
  note first = save_iff_new_alerts [where e = example_env and m = "example_monitor {}"
      and w = example_world, OF run_pair]
  note again = save_iff_new_alerts [where e = example_env
      and m = "example_monitor {KStr ''Oversized Shirt''}" and w = example_world, OF run_pair]
  have 1: "Call_save_seen_phrases \<in>
     set (new_calls example_world (snd (run example_env (example_monitor {}) example_world)))"
    using first example_run_found by simp
  have 2: "Call_save_seen_phrases \<notin>
     set (new_calls example_world
       (snd (run example_env (example_monitor {KStr ''Oversized Shirt''}) example_world)))"
    using again example_rerun_found by simp
  have "seen_phrases (fst (run example_env (example_monitor {KStr ''Oversized Shirt''})
          example_world)) = seen_phrases (example_monitor {KStr ''Oversized Shirt''})"
    by (simp add: example_rerun_seen) (simp add: example_monitor_def)
  with again have
    "disk (snd (run example_env (example_monitor {KStr ''Oversized Shirt''}) example_world)) =
       disk example_world"
    by blast
  then have 3:
    "disk (snd (run example_env (example_monitor {KStr ''Oversized Shirt''}) example_world)) =
       Missing"
    by (simp add: example_world_def)
  from 1 2 3 example_run_found example_rerun_found show ?thesis by blast
qed

text \<open>
  C5. Whatever Telegram answers to a request (an error status or no answer at all among
  the cases), a candidate of the list that passes the seen-check and the filter is
  dispatched once and is in the store when the run ends: a failed dispatch neither stops
  the loop nor keeps the phrase out of the store. When the write then succeeds, the file
  holds the store of the monitor, that phrase in it: the next load returns it.
\<close>

theorem failed_dispatch_still_marks_seen:
  assumes "run e m w = (m', w')"
    and "it \<in> set (potential_trends e)"
    and "KStr (query it) \<notin> seen_phrases m"
    and "is_valid_phrase (query it)"
  shows "KStr (query it) \<in> seen_phrases m' \<and>
         dispatches (query it) (new_calls w w') = 1 \<and>
         (dump e = Written \<longrightarrow> set (list_of e (seen_phrases m')) = seen_phrases m' \<longrightarrow>
            load_seen_phrases w' = Inr (seen_phrases m', w'))"
proof -
  from assms(1) have m': "m' = fst (run e m w)" and w': "w' = snd (run e m w)" by simp_all
  have key: "KStr (query it) \<in> valid_keys (potential_trends e)"
    using assms(2,4) by (auto simp: valid_keys_iff)
  then have 1: "KStr (query it) \<in> seen_phrases m'"
    using m' by (simp add: run_seen)
  have 2: "dispatches (query it) (new_calls w w') = 1"
    using assms(2-4) w' by (auto simp: run_dispatches)
  have pos: "0 < new_trends_found e m w"
    using key assms(3) by (auto simp: new_trends_found_card card_gt_0_iff)
  have 3: "load_seen_phrases w' = Inr (seen_phrases m', w')"
    if "dump e = Written" "set (list_of e (seen_phrases m')) = seen_phrases m'"
  proof -
    have "disk w' = Document (JArr (map json_of_key (list_of e (seen_phrases m'))))"
      using pos that(1) m' w' by (simp add: run_disk)
    from load_Document_array[OF this] that(2) show ?thesis by simp
  qed
  from 1 2 3 show ?thesis by blast
qed

text \<open>
  In the sample run every request to Telegram fails (the log says so); \<open>Oversized Shirt\<close>
  is in the store all the same, and in the file that the run wrote.
\<close>

theorem failed_dispatch_still_marks_seen_witness:
  "logs (snd (run example_env (example_monitor {}) example_world)) =
     [(INFO, ''Starting trend scan...''),
      (ERROR, ''Connection error sending Telegram alert: timed out''),
      (INFO, ''Scan complete. 1 new alerts sent.'')] \<and>
   KStr ''Oversized Shirt'' \<in>
     seen_phrases (fst (run example_env (example_monitor {}) example_world)) \<and>
   load_seen_phrases (snd (run example_env (example_monitor {}) example_world)) =
     Inr ({KStr ''Oversized Shirt''}, snd (run example_env (example_monitor {}) example_world))"
proof -
  let ?it = "\<lparr>query = ''Oversized Shirt'', growth_value = GStr ''250''\<rparr>"
  have 1: "?it \<in> set (potential_trends example_env)"
    by (simp add: example_rows_member)
  have 2: "KStr (query ?it) \<notin> seen_phrases (example_monitor {})"
    by (simp add: example_monitor_def)
  have 3: "is_valid_phrase (query ?it)"
    by (simp add: valid_Oversized_Shirt)
  have 4: "dump example_env = Written"
    by (simp add: example_env_def)
  have 5: "set (list_of example_env
             (seen_phrases (fst (run example_env (example_monitor {}) example_world)))) =
           seen_phrases (fst (run example_env (example_monitor {}) example_world))"
    by (simp add: example_run_seen) (simp add: example_env_def)
  from failed_dispatch_still_marks_seen [OF run_pair 1 2 3] 4 5 example_run_logs
  show ?thesis by (simp add: example_run_seen)
qed

subsection \<open>Two scans in a row\<close>

lemma scan_eq:
  "load_seen_phrases w = Inr (s, v) \<Longrightarrow>
     scan e token channel w =
       Inr (run e \<lparr>bot_token = token, channel_id = channel, seen_phrases = s\<rparr> v)"
  by (simp add: scan_def)

lemma scan_Inr:
  "scan e token channel w = Inr (m', w') \<Longrightarrow>
     \<exists>s v. load_seen_phrases w = Inr (s, v) \<and>
       run e \<lparr>bot_token = token, channel_id = channel, seen_phrases = s\<rparr> v = (m', w')"
  by (auto simp: scan_def split: sum.splits)

lemma new_calls_trans:
  "calls w1 = calls w0 @ cs \<Longrightarrow> calls w2 = calls w1 @ ds \<Longrightarrow>
     new_calls w0 w2 = new_calls w0 w1 @ new_calls w1 w2"
  by (simp add: new_calls_def)

lemma run_calls_prefix: "\<exists>cs. calls (snd (run e m w)) = calls w @ cs"
proof -
  obtain cs where "calls (snd (run e m w)) =
      calls w @ cs @ (if 0 < new_trends_found e m w then [Call_save_seen_phrases] else [])"
    using run_calls[of e m w] by blast
  then show ?thesis by blast
qed

lemma example_scan:
  "scan example_env ''TOKEN'' ''@channel'' example_world =
     Inr (fst (run example_env (example_monitor {}) example_world),
          snd (run example_env (example_monitor {}) example_world))"
  by (simp add: scan_def load_seen_phrases_def example_world_def example_monitor_def)


text \<open>
  C2. Two invocations of the script in a row, the trend source returning the same
  candidate list to both. When the first one ends and its write succeeds, the second one
  loads the store that the first one held at its end, and dispatches nothing. Over the
  two, a phrase is dispatched exactly once when it is a valid candidate that the store
  did not hold before the first invocation, and not at all otherwise.
\<close>

theorem second_scan_sends_nothing:
  assumes first: "scan e1 token channel w0 = Inr (m1, w1)"
    and saved: "dump e1 = Written"
    and listed: "set (list_of e1 (seen_phrases m1)) = seen_phrases m1"
    and same: "potential_trends e2 = potential_trends e1"
  shows "\<exists>s0 v0 m2 w2.
           load_seen_phrases w0 = Inr (s0, v0) \<and>
           scan e2 token channel w1 = Inr (m2, w2) \<and>
           (\<forall>p. dispatches p (new_calls w1 w2) = 0) \<and>
           (\<forall>p. dispatches p (new_calls w0 w2) =
              (if p \<in> query ` set (potential_trends e1) \<and> is_valid_phrase p \<and> KStr p \<notin> s0
               then 1 else 0))"
proof -
  let ?V = "valid_keys (potential_trends e1)"
  obtain s0 v0 where load0: "load_seen_phrases w0 = Inr (s0, v0)"
    and run1: "run e1 \<lparr>bot_token = token, channel_id = channel, seen_phrases = s0\<rparr> v0 = (m1, w1)"
    using scan_Inr[OF first] by blast
  let ?m0 = "\<lparr>bot_token = token, channel_id = channel, seen_phrases = s0\<rparr>"
  have m1: "m1 = fst (run e1 ?m0 v0)" and w1: "w1 = snd (run e1 ?m0 v0)"
    using run1 by simp_all
  have v0: "disk v0 = disk w0" "calls v0 = calls w0"
    using load_frame[OF load0] by simp_all
  have seen1: "seen_phrases m1 = s0 \<union> ?V"
    using m1 by (simp add: run_seen)
  have "\<exists>v1. load_seen_phrases w1 = Inr (seen_phrases m1, v1)"
  proof (cases "0 < new_trends_found e1 ?m0 v0")
    case True
    then have "disk w1 = Document (JArr (map json_of_key (list_of e1 (seen_phrases m1))))"
      using saved m1 w1 by (simp add: run_disk)
    from load_Document_array[OF this] listed show ?thesis by simp
  next
    case False
    then have "disk w1 = disk w0"
      using w1 v0 by (simp add: run_disk)
    moreover have "seen_phrases m1 = s0"
      using False new_trends_found_pos[of e1 ?m0 v0] m1 seen1 by auto
    ultimately show ?thesis
      using load_same_disk[of w1 w0 s0 v0] load0 by simp
  qed
  then obtain v1 where load1: "load_seen_phrases w1 = Inr (seen_phrases m1, v1)" by blast
  have v1: "calls v1 = calls w1"
    using load_frame[OF load1] by simp
  let ?m1 = "\<lparr>bot_token = token, channel_id = channel, seen_phrases = seen_phrases m1\<rparr>"
  let ?w2 = "snd (run e2 ?m1 v1)"
  have scan2: "scan e2 token channel w1 = Inr (fst (run e2 ?m1 v1), ?w2)"
    using scan_eq[OF load1] by simp
  have second: "dispatches p (new_calls w1 ?w2) = 0" for p
  proof -
    have "new_calls w1 ?w2 = new_calls v1 ?w2"
      using v1 by (simp add: new_calls_def)
    moreover have "dispatches p (new_calls v1 ?w2) = 0"
      using seen1 by (auto simp: run_dispatches same valid_keys_iff)
    ultimately show ?thesis by simp
  qed
  have first_run: "dispatches p (new_calls w0 w1) =
      (if p \<in> query ` set (potential_trends e1) \<and> is_valid_phrase p \<and> KStr p \<notin> s0
       then 1 else 0)" for p
  proof -
    have "new_calls w0 w1 = new_calls v0 w1"
      using v0 by (simp add: new_calls_def)
    then show ?thesis
      using w1 by (simp add: run_dispatches)
  qed
  obtain cs where cs: "calls w1 = calls w0 @ cs"
    using run_calls_prefix[of e1 ?m0 v0] w1 v0 by auto
  obtain ds where ds: "calls ?w2 = calls w1 @ ds"
    using run_calls_prefix[of e2 ?m1 v1] v1 by auto
  have total: "dispatches p (new_calls w0 ?w2) =
      (if p \<in> query ` set (potential_trends e1) \<and> is_valid_phrase p \<and> KStr p \<notin> s0
       then 1 else 0)" for p
    using new_calls_trans[OF cs ds] first_run[of p] second[of p] by simp
  from load0 scan2 second total show ?thesis by blast
qed

text \<open>
  The sample scan, twice, starting with no file: the second scan does not dispatch
  \<open>Oversized Shirt\<close>, which the two scans together dispatch once.
\<close>

theorem second_scan_sends_nothing_witness:
  "\<exists>m2 w2.
     scan example_env ''TOKEN'' ''@channel''
       (snd (run example_env (example_monitor {}) example_world)) = Inr (m2, w2) \<and>
     dispatches ''Oversized Shirt''
       (new_calls (snd (run example_env (example_monitor {}) example_world)) w2) = 0 \<and>
     dispatches ''Oversized Shirt'' (new_calls example_world w2) = 1"
proof -
  let ?m1 = "fst (run example_env (example_monitor {}) example_world)"
  let ?w1 = "snd (run example_env (example_monitor {}) example_world)"
  have listed: "set (list_of example_env (seen_phrases ?m1)) = seen_phrases ?m1"
    by (simp add: example_run_seen) (simp add: example_env_def)
  have saved: "dump example_env = Written"
    by (simp add: example_env_def)
  obtain s0 v0 m2 w2 where
    l: "load_seen_phrases example_world = Inr (s0, v0)" and
    s: "scan example_env ''TOKEN'' ''@channel'' ?w1 = Inr (m2, w2)" and
    z: "\<forall>p. dispatches p (new_calls ?w1 w2) = 0" and
    t: "\<forall>p. dispatches p (new_calls example_world w2) =
          (if p \<in> query ` set (potential_trends example_env) \<and> is_valid_phrase p \<and>
              KStr p \<notin> s0
           then 1 else 0)"
    using second_scan_sends_nothing [OF example_scan saved listed refl] by blast
  from l have "s0 = {}" by (simp add: example_load)
  moreover have "''Oversized Shirt'' \<in> query ` set (potential_trends example_env)"
    by (simp add: example_rows_def)
  ultimately have "dispatches ''Oversized Shirt'' (new_calls example_world w2) = 1"
    using t valid_Oversized_Shirt by simp
  with s z show ?thesis by blast
qed

end
